theory Spec2Isabelle
  imports Main
begin

section \<open>Python values\<close>

text \<open>
  Both scripts work on parsed JSON. A parsed value is \<open>None\<close>, a bool, an integer, a
  string, a list or a dict; a dict is an association list in insertion order whose keys
  are distinct, looked up with \<open>map_of\<close>. Floating-point numbers are left out.
  A Python \<open>str\<close> is a list of code points; \<open>string\<close> covers the code points below 256.
\<close>

datatype json =
    JNull
  | JBool bool
  | JInt int
  | JStr string
  | JList "json list"
  | JObj "(string \<times> json) list"

type_synonym jdict = "(string \<times> json) list"

datatype error =
    AttributeError
  | TypeError
  | KeyError
  | RuntimeError int
  | RequestException
  | JSONDecodeError
  | RecursionError
  | SystemExit

text \<open>Truth value testing, as used by \<open>or\<close>, \<open>if x\<close> and \<open>not x\<close>.\<close>

fun truthy :: "json \<Rightarrow> bool" where
  "truthy JNull = False"
| "truthy (JBool b) = b"
| "truthy (JInt n) = (n \<noteq> 0)"
| "truthy (JStr s) = (s \<noteq> [])"
| "truthy (JList xs) = (xs \<noteq> [])"
| "truthy (JObj kvs) = (kvs \<noteq> [])"

text \<open>\<open>a or b\<close>: the left operand when it is truthy, the right operand otherwise.\<close>

definition py_or :: "json \<Rightarrow> json \<Rightarrow> json" where
  "py_or a b = (if truthy a then a else b)"

text \<open>\<open>d.get(k)\<close>: the value stored under \<open>k\<close>, \<open>None\<close> when the key is absent.\<close>

definition dict_get :: "jdict \<Rightarrow> string \<Rightarrow> json" where
  "dict_get d k = (case map_of d k of Some v \<Rightarrow> v | None \<Rightarrow> JNull)"

text \<open>
  \<open>str(v)\<close>: a string is returned as it is. The text Python prints for the other values
  (numbers, \<open>None\<close>, the repr of lists and dicts) is the parameter \<open>strf\<close>.
\<close>

definition py_str :: "(json \<Rightarrow> string) \<Rightarrow> json \<Rightarrow> string" where
  "py_str strf v = (case v of JStr s \<Rightarrow> s | _ \<Rightarrow> strf v)"

definition startswith :: "string \<Rightarrow> string \<Rightarrow> bool" where
  "startswith s p = (take (length p) s = p)"

text \<open>\<open>s.lstrip(cs)\<close>: drop the leading characters that occur in \<open>cs\<close>.\<close>

definition lstrip :: "string \<Rightarrow> string \<Rightarrow> string" where
  "lstrip cs s = dropWhile (\<lambda>c. c \<in> set cs) s"

text \<open>The whitespace code points below 256, as \<open>str.strip()\<close> sees them.\<close>

definition is_space :: "char \<Rightarrow> bool" where
  "is_space c =
     (let n = (of_char c :: nat)
      in (9 \<le> n \<and> n \<le> 13) \<or> (28 \<le> n \<and> n \<le> 32) \<or> n = 133 \<or> n = 160)"

definition strip :: "string \<Rightarrow> string" where
  "strip s = rev (dropWhile is_space (rev (dropWhile is_space s)))"

text \<open>\<open>sep.join(xs)\<close>\<close>

fun join :: "string \<Rightarrow> string list \<Rightarrow> string" where
  "join sep [] = []"
| "join sep [x] = x"
| "join sep (x # y # ys) = x @ sep @ join sep (y # ys)"

section \<open>download\_all\_campaigns.py: helpers\<close>

definition BASE_URL :: string where
  "BASE_URL = ''https://api.liaufa.com/api/v1/open-api/v2''"


text \<open>\<open>CAMPAIGNS_PATH_TEMPLATE.format(id=account_id)\<close>\<close>

definition CAMPAIGNS_PATH :: "string \<Rightarrow> string" where
  "CAMPAIGNS_PATH account_id = ''/li_accounts/'' @ account_id @ ''/campaign_instances/''"

definition DEFAULT_PARAMS :: "(string \<times> int) list" where
  "DEFAULT_PARAMS = [(''page'', 1), (''limit'', 100)]"

text \<open>Sleeps are recorded in milliseconds: 0.2 s between accounts, 5 s after a 429.\<close>

definition SLEEP_BETWEEN_ACCOUNTS_MS :: nat where
  "SLEEP_BETWEEN_ACCOUNTS_MS = 200"

definition RATE_LIMIT_SLEEP_MS :: nat where
  "RATE_LIMIT_SLEEP_MS = 5000"

text \<open>
  \<open>extract_list_and_next(data)\<close>. A list is returned with no pointer. Anything else is
  asked for its keys with \<open>data.get\<close>, which raises \<open>AttributeError\<close> on a value that is
  not a dict. The two \<open>or\<close> chains pick the first truthy operand, and their last one
  when none is truthy.
\<close>

definition extract_list_and_next :: "json \<Rightarrow> error + (json \<times> json)" where
  "extract_list_and_next data =
     (case data of
        JList xs \<Rightarrow> Inr (JList xs, JNull)
      | JObj d \<Rightarrow>
          (let items = py_or (dict_get d ''results'')
                         (py_or (dict_get d ''items'')
                           (py_or (dict_get d ''data'') (JList [])));
               next_url = py_or (dict_get d ''next'')
                            (py_or (dict_get d ''nextPage'') (dict_get d ''next_page''))
           in Inr (items, next_url))
      | _ \<Rightarrow> Inl AttributeError)"

text \<open>\<open>pick_account_id(acc)\<close>: the first alias whose value is not \<open>None\<close>, as a string.\<close>

fun pick_first_id :: "(json \<Rightarrow> string) \<Rightarrow> jdict \<Rightarrow> string list \<Rightarrow> string option" where
  "pick_first_id strf acc [] = None"
| "pick_first_id strf acc (key # keys) =
     (if dict_get acc key \<noteq> JNull then Some (py_str strf (dict_get acc key))
      else pick_first_id strf acc keys)"

definition ACCOUNT_ID_KEYS :: "string list" where
  "ACCOUNT_ID_KEYS = [''id'', ''pk'', ''_id'', ''uuid'', ''account_id'', ''li_account_id'']"

definition pick_account_id :: "(json \<Rightarrow> string) \<Rightarrow> jdict \<Rightarrow> string option" where
  "pick_account_id strf acc = pick_first_id strf acc ACCOUNT_ID_KEYS"

definition pick_account_label :: "jdict \<Rightarrow> json \<times> json" where
  "pick_account_label acc =
     (py_or (dict_get acc ''name'')
        (py_or (dict_get acc ''fullName'')
          (py_or (dict_get acc ''email'')
            (py_or (dict_get acc ''username'') (JStr '''')))),
      py_or (dict_get acc ''linkedinUrl'')
        (py_or (dict_get acc ''linkedin_url'')
          (py_or (dict_get acc ''public_profile_url'') (JStr ''''))))"

section \<open>download\_all\_campaigns.py: requests and pagination\<close>

text \<open>
  A GET carries the URL, the headers and the query parameters (\<open>None\<close> when the call
  passes \<open>params=None\<close>).
\<close>

record request =
  req_url :: string
  req_headers :: "(string \<times> string) list"
  req_params :: "(string \<times> int) list option"

text \<open>
  What \<open>session.get\<close> gives back: a response with its status code and the value of
  \<open>r.json()\<close> (\<open>None\<close> when the body is not JSON), or no response at all, when
  \<open>requests\<close> raises \<open>RequestException\<close>.
\<close>

datatype reply = Response int "json option" | NoResponse

text \<open>
  The effects of a run, in order: the GETs sent and the sleeps, in milliseconds. The
  progress lines printed to the terminal are not recorded.
\<close>

datatype event = Get request | Sleep nat

text \<open>
  The remote API is a state machine: from its state and a request it gives a reply and
  its next state. The world is the server's state and the effects so far.
\<close>

type_synonym 's server = "'s \<Rightarrow> request \<Rightarrow> reply \<times> 's"

record 's world =
  srv_state :: 's
  trace :: "event list"

text \<open>
  A call returns a value or raises. The \<open>while True\<close> loop of the paginator may run
  forever, so the functions of the paginated fetch take the number of GETs they may
  still send (the fuel) and give back what is left of it; \<open>OutOfFuel\<close> is a run that
  would send one more.
\<close>

datatype 'a outcome = Returned 'a | Raised error | OutOfFuel

text \<open>
  \<open>session_get_json(session, url, headers, params)\<close>: a 429 sleeps and calls itself
  with the same arguments, a status of 400 or more raises \<open>RuntimeError\<close>, anything else
  returns the parsed body. The retry is a nested call, and the interpreter allows only
  so many: \<open>room\<close> is the number of nested calls of the wrapper that still fit under
  the recursion limit (\<open>sys.getrecursionlimit()\<close>, 1000 unless changed, less the frames
  in use). The nested call that does not fit raises \<open>RecursionError\<close>, which nothing
  in the source catches.
\<close>

fun session_get_json ::
  "nat \<Rightarrow> nat \<Rightarrow> 's server \<Rightarrow> request \<Rightarrow> 's world \<Rightarrow> json outcome \<times> 's world \<times> nat" where
  "session_get_json 0 room srv req w = (OutOfFuel, w, 0)"
| "session_get_json (Suc n) room srv req w =
     (let (r, s') = srv (srv_state w) req;
          w1 = \<lparr>srv_state = s', trace = trace w @ [Get req]\<rparr>
      in case r of
           NoResponse \<Rightarrow> (Raised RequestException, w1, n)
         | Response status_code body \<Rightarrow>
             if status_code = 429
             then (let w2 = w1\<lparr>trace := trace w1 @ [Sleep RATE_LIMIT_SLEEP_MS]\<rparr>
                   in case room of
                        0 \<Rightarrow> (Raised RecursionError, w2, n)
                      | Suc room' \<Rightarrow> session_get_json n room' srv req w2)
             else if status_code \<ge> 400 then (Raised (RuntimeError status_code), w1, n)
             else (case body of
                     None \<Rightarrow> (Raised JSONDecodeError, w1, n)
                   | Some data \<Rightarrow> (Returned data, w1, n)))"



text \<open>The request of one iteration: \<open>params = {"page": page, "limit": limit}\<close>.\<close>

definition page_request :: "string \<Rightarrow> (string \<times> string) list \<Rightarrow> int \<Rightarrow> int \<Rightarrow> request" where
  "page_request url headers page limit =
     \<lparr>req_url = url, req_headers = headers,
      req_params = Some [(''page'', page), (''limit'', limit)]\<rparr>"

text \<open>
  The URL that follows a pointer: the pointer itself when it starts with http,
  otherwise \<open>urljoin(BASE_URL + "/", next_url.lstrip("/"))\<close>. \<open>urljoin\<close> is the standard
  library's and is a parameter.
\<close>

definition resolve_url :: "(string \<Rightarrow> string \<Rightarrow> string) \<Rightarrow> string \<Rightarrow> string" where
  "resolve_url urljoin next_url =
     (if startswith next_url ''http'' then next_url
      else urljoin (BASE_URL @ ''/'') (lstrip ''/'' next_url))"

text \<open>
  What \<open>all_campaigns.extend(campaigns)\<close> appends, and what \<open>len(campaigns)\<close> counts: the
  items of a list, the characters of a string, the keys of a dict. A number or a bool
  raises \<open>TypeError\<close>.
\<close>

fun py_iter :: "json \<Rightarrow> error + json list" where
  "py_iter (JList xs) = Inr xs"
| "py_iter (JStr s) = Inr (map (\<lambda>c. JStr [c]) s)"
| "py_iter (JObj d) = Inr (map (\<lambda>kv. JStr (fst kv)) d)"
| "py_iter _ = Inl TypeError"

text \<open>Every call that does not run out of fuel has used some.\<close>

lemma session_get_json_fuel:
  "session_get_json fuel room srv req w = (r, w1, fuel1) \<Longrightarrow> r \<noteq> OutOfFuel \<Longrightarrow> fuel1 < fuel"
proof (induction fuel arbitrary: w room)
  case 0
  then show ?case by simp
next
  case (Suc n)
  then show ?case
    by (fastforce simp: Let_def less_Suc_eq
          split: prod.splits reply.splits if_splits option.splits nat.splits)
qed

text \<open>
  The \<open>while True\<close> loop of \<open>fetch_campaigns_for_account\<close>, on its variables \<open>url\<close>,
  \<open>page\<close> and \<open>all_campaigns\<close>. \<open>next_url.startswith\<close> raises \<open>AttributeError\<close> on a
  truthy pointer that is not a string. Every iteration calls the wrapper from the same
  frame, so with the same \<open>room\<close>.
\<close>

function fetch_campaigns_loop ::
  "(string \<Rightarrow> string \<Rightarrow> string) \<Rightarrow> nat \<Rightarrow> 's server \<Rightarrow> (string \<times> string) list \<Rightarrow> int \<Rightarrow>
   string \<Rightarrow> int \<Rightarrow> json list \<Rightarrow> 's world \<Rightarrow> nat \<Rightarrow> json list outcome \<times> 's world \<times> nat" where
  "fetch_campaigns_loop urljoin room srv headers limit url page all_campaigns w fuel =
     (case session_get_json fuel room srv
             \<lparr>req_url = url, req_headers = headers,
              req_params = Some [(''page'', page), (''limit'', limit)]\<rparr> w of
        (Returned data, w1, fuel1) \<Rightarrow>
          (case extract_list_and_next data of
             Inl e \<Rightarrow> (Raised e, w1, fuel1)
           | Inr (campaigns, next_url) \<Rightarrow>
               (case py_iter campaigns of
                  Inl e \<Rightarrow> (Raised e, w1, fuel1)
                | Inr xs \<Rightarrow>
                    if truthy next_url then
                      (case next_url of
                         JStr s \<Rightarrow>
                           fetch_campaigns_loop urljoin room srv headers limit
                             (resolve_url urljoin s) (page + 1) (all_campaigns @ xs) w1 fuel1
                       | _ \<Rightarrow> (Raised AttributeError, w1, fuel1))
                    else if int (length xs) < limit then (Returned (all_campaigns @ xs), w1, fuel1)
                    else fetch_campaigns_loop urljoin room srv headers limit
                           url (page + 1) (all_campaigns @ xs) w1 fuel1))
      | (Raised e, w1, fuel1) \<Rightarrow> (Raised e, w1, fuel1)
      | (OutOfFuel, w1, fuel1) \<Rightarrow> (OutOfFuel, w1, fuel1))"
  by pat_completeness auto
termination
  by (relation "measure (\<lambda>(urljoin, room, srv, headers, limit, url, page, all_campaigns, w, fuel). fuel)")
     (auto dest!: session_get_json_fuel[OF sym])

declare fetch_campaigns_loop.simps [simp del]

definition fetch_campaigns_for_account ::
  "(string \<Rightarrow> string \<Rightarrow> string) \<Rightarrow> nat \<Rightarrow> 's server \<Rightarrow> (string \<times> string) list \<Rightarrow> string \<Rightarrow>
   's world \<Rightarrow> nat \<Rightarrow> json list outcome \<times> 's world \<times> nat" where
  "fetch_campaigns_for_account urljoin room srv headers account_id w fuel =
     (let path = CAMPAIGNS_PATH account_id;
          url = urljoin (BASE_URL @ ''/'') (lstrip ''/'' path);
          limit = (case map_of DEFAULT_PARAMS ''limit'' of Some l \<Rightarrow> l | None \<Rightarrow> 100)
      in fetch_campaigns_loop urljoin room srv headers limit url 1 [] w fuel)"

text \<open>
  The loop of \<open>main\<close> over the accounts, on \<open>all_rows\<close>. An account that is not a dict
  raises \<open>AttributeError\<close> on \<open>acc.get\<close>; an error of the paginator ends the run.
\<close>

fun main_loop ::
  "(string \<Rightarrow> string \<Rightarrow> string) \<Rightarrow> nat \<Rightarrow> (json \<Rightarrow> string) \<Rightarrow> 's server \<Rightarrow> (string \<times> string) list \<Rightarrow>
   json list \<Rightarrow> json list \<Rightarrow> 's world \<Rightarrow> nat \<Rightarrow> json list outcome \<times> 's world \<times> nat" where
  "main_loop urljoin room strf srv headers [] all_rows w fuel = (Returned all_rows, w, fuel)"
| "main_loop urljoin room strf srv headers (acc # accounts) all_rows w fuel =
     (case acc of
        JObj a \<Rightarrow>
          (case pick_account_id strf a of
             None \<Rightarrow> main_loop urljoin room strf srv headers accounts all_rows w fuel
           | Some account_id \<Rightarrow>
               if account_id = [] then main_loop urljoin room strf srv headers accounts all_rows w fuel
               else
                 (let (name, linkedin) = pick_account_label a
                  in case fetch_campaigns_for_account urljoin room srv headers account_id w fuel of
                       (Returned campaigns, w1, fuel1) \<Rightarrow>
                         main_loop urljoin room strf srv headers accounts
                           (all_rows @
                            map (\<lambda>c. JObj [(''account_id'', JStr account_id),
                                          (''account_name'', name),
                                          (''account_linkedin'', linkedin),
                                          (''campaign'', c)]) campaigns)
                           (w1\<lparr>trace := trace w1 @ [Sleep SLEEP_BETWEEN_ACCOUNTS_MS]\<rparr>) fuel1
                     | (Raised e, w1, fuel1) \<Rightarrow> (Raised e, w1, fuel1)
                     | (OutOfFuel, w1, fuel1) \<Rightarrow> (OutOfFuel, w1, fuel1)))
      | _ \<Rightarrow> (Raised AttributeError, w, fuel))"

section \<open>json\_to\_excel\_campaigns.py: flattening\<close>

definition STATS_KEYS :: "string list" where
  "STATS_KEYS =
     [''stopped'', ''finished'', ''in_queue'', ''connected'', ''initiated'', ''step_count'',
      ''maybe_people'', ''contacted_people'', ''latest_action_id'', ''interested_people'',
      ''people_in_campaign'', ''replied_first_action'', ''not_interested_people'',
      ''replied_other_actions'']"

text \<open>
  \<open>get_first(d, keys, default)\<close>: the value of the first key that \<open>d\<close> holds with a value
  other than \<open>None\<close>; the default when \<open>d\<close> is not a dict or no key qualifies.
\<close>

fun get_first :: "json \<Rightarrow> string list \<Rightarrow> json \<Rightarrow> json" where
  "get_first d [] dflt = dflt"
| "get_first d (k # ks) dflt =
     (case d of
        JObj kvs \<Rightarrow>
          (case map_of kvs k of
             Some v \<Rightarrow> (if v \<noteq> JNull then v else get_first d ks dflt)
           | None \<Rightarrow> get_first d ks dflt)
      | _ \<Rightarrow> get_first d ks dflt)"

definition normalize_campaign_name :: "jdict \<Rightarrow> json" where
  "normalize_campaign_name campaign =
     py_or (get_first (JObj campaign) [''name'', ''title'', ''campaign_name''] JNull)
       (py_or (get_first
                 (case dict_get campaign ''campaign'' of JObj n \<Rightarrow> JObj n | _ \<Rightarrow> JObj [])
                 [''name'', ''title''] JNull)
          (JStr ''''))"

text \<open>
  \<open>normalize_list(x)\<close>. Each list item becomes a string: a string stays, a dict gives
  \<open>str\<close> of the first truthy of its name, label, title, id, or of \<open>json.dumps(item)\<close>
  (the parameter \<open>dumps\<close>) when none is truthy, anything else gives \<open>str(item)\<close>. The
  strings are then deduplicated in first-seen order, dropping empty ones, and joined.
\<close>

definition item_text :: "(json \<Rightarrow> string) \<Rightarrow> (json \<Rightarrow> string) \<Rightarrow> json \<Rightarrow> string" where
  "item_text strf dumps item =
     (case item of
        JStr s \<Rightarrow> s
      | JObj d \<Rightarrow>
          py_str strf
            (py_or (dict_get d ''name'')
              (py_or (dict_get d ''label'')
                (py_or (dict_get d ''title'')
                  (py_or (dict_get d ''id'') (JStr (dumps item))))))
      | _ \<Rightarrow> py_str strf item)"

fun dedup :: "string list \<Rightarrow> string list \<Rightarrow> string list" where
  "dedup seen [] = []"
| "dedup seen (v # vs) =
     (if v \<notin> set seen \<and> v \<noteq> [] then v # dedup (v # seen) vs else dedup seen vs)"

definition normalize_list :: "(json \<Rightarrow> string) \<Rightarrow> (json \<Rightarrow> string) \<Rightarrow> json \<Rightarrow> string" where
  "normalize_list strf dumps x =
     (case x of
        JNull \<Rightarrow> []
      | JList xs \<Rightarrow>
          (if length xs = 0 then []
           else join '', '' (dedup [] (map (item_text strf dumps) xs)))
      | _ \<Rightarrow> py_str strf x)"

text \<open>
  \<open>flatten_row(row)\<close>: the fixed columns, then one column per stats key. The record's
  campaign, and the campaign's stats, are replaced by an empty dict when they are falsy
  or not a dict.
\<close>

definition flatten_row :: "(json \<Rightarrow> string) \<Rightarrow> (json \<Rightarrow> string) \<Rightarrow> jdict \<Rightarrow> jdict" where
  "flatten_row strf dumps row =
     (let campaign = (case py_or (dict_get row ''campaign'') (JObj []) of
                        JObj c \<Rightarrow> c | _ \<Rightarrow> []);
          stats = (case py_or (dict_get campaign ''stats'') (JObj []) of
                     JObj s \<Rightarrow> s | _ \<Rightarrow> [])
      in [(''account_name'', dict_get row ''account_name''),
          (''account_id'', dict_get row ''account_id''),
          (''campaign_name'', normalize_campaign_name campaign),
          (''campaign_instance_id'',
             get_first (JObj campaign) [''id'', ''_id'', ''pk'', ''uuid'', ''campaign_instance_id''] JNull),
          (''status'', get_first (JObj campaign) [''status'', ''state''] JNull),
          (''activated'',
             get_first (JObj campaign) [''activated'', ''activated_at'', ''activatedAt''] JNull),
          (''deactivated'',
             get_first (JObj campaign) [''deactivated'', ''deactivated_at'', ''deactivatedAt''] JNull),
          (''tags'', JStr (normalize_list strf dumps (dict_get campaign ''tags''))),
          (''labels'', JStr (normalize_list strf dumps (dict_get campaign ''labels'')))]
         @ map (\<lambda>k. (''stats_'' @ k, dict_get stats k)) STATS_KEYS)"

section \<open>json\_to\_excel\_campaigns.py: the table\<close>

text \<open>
  \<open>[flatten_row(r) for r in data]\<close>: a record that is not a dict raises \<open>AttributeError\<close>
  on \<open>row.get\<close>.
\<close>

fun flatten_all :: "(json \<Rightarrow> string) \<Rightarrow> (json \<Rightarrow> string) \<Rightarrow> json list \<Rightarrow> error + jdict list" where
  "flatten_all strf dumps [] = Inr []"
| "flatten_all strf dumps (r # rs) =
     (case r of
        JObj row \<Rightarrow>
          (case flatten_all strf dumps rs of
             Inl e \<Rightarrow> Inl e
           | Inr rows \<Rightarrow> Inr (flatten_row strf dumps row # rows))
      | _ \<Rightarrow> Inl AttributeError)"

text \<open>\<open>.fillna("").astype(str)\<close> on one cell.\<close>

definition fillna_astype_str :: "(json \<Rightarrow> string) \<Rightarrow> json \<Rightarrow> string" where
  "fillna_astype_str strf v = (case v of JNull \<Rightarrow> [] | _ \<Rightarrow> py_str strf v)"

text \<open>The assignment to the campaign\_name column, on one row.\<close>

definition campaign_name_as_str :: "(json \<Rightarrow> string) \<Rightarrow> jdict \<Rightarrow> jdict" where
  "campaign_name_as_str strf row =
     map (\<lambda>(c, v). if c = ''campaign_name'' then (c, JStr (fillna_astype_str strf v)) else (c, v)) row"

text \<open>
  The CAMPAIGN\_STATS table of \<open>main\<close>: the input must be a list (otherwise
  \<open>SystemExit\<close>); its records are flattened; the name column is made a string; the
  rows whose name is blank after \<open>strip\<close> are dropped. A frame built from no rows has
  no columns, so selecting campaign\_name raises \<open>KeyError\<close>.
\<close>

definition campaign_stats_table ::
  "(json \<Rightarrow> string) \<Rightarrow> (json \<Rightarrow> string) \<Rightarrow> json \<Rightarrow> error + jdict list" where
  "campaign_stats_table strf dumps data =
     (case data of
        JList rs \<Rightarrow>
          (case flatten_all strf dumps rs of
             Inl e \<Rightarrow> Inl e
           | Inr rows \<Rightarrow>
               if rows = [] then Inl KeyError
               else Inr (filter (\<lambda>row. strip (py_str strf (dict_get row ''campaign_name'')) \<noteq> [])
                           (map (campaign_name_as_str strf) rows)))
      | _ \<Rightarrow> Inl SystemExit)"

section \<open>The specification's wording, for comparison\<close>

text \<open>
  The response-shape rule as the specification words it: the value of the first key
  that is present, an empty list or no pointer when none is, for every body that is
  not an array.
\<close>

fun first_present :: "jdict \<Rightarrow> string list \<Rightarrow> json option" where
  "first_present d [] = None"
| "first_present d (k # ks) =
     (case map_of d k of Some v \<Rightarrow> Some v | None \<Rightarrow> first_present d ks)"

definition extract_list_and_next_spec :: "json \<Rightarrow> json \<times> json" where
  "extract_list_and_next_spec data =
     (case data of
        JList xs \<Rightarrow> (JList xs, JNull)
      | JObj d \<Rightarrow>
          (case first_present d [''results'', ''items'', ''data''] of
             Some v \<Rightarrow> v | None \<Rightarrow> JList [],
           case first_present d [''next'', ''nextPage'', ''next_page''] of
             Some v \<Rightarrow> v | None \<Rightarrow> JNull)
      | _ \<Rightarrow> (JList [], JNull))"

text \<open>Keeping the first occurrence of every string, in first-seen order.\<close>

fun uniq :: "string list \<Rightarrow> string list" where
  "uniq [] = []"
| "uniq (x # xs) = x # uniq (removeAll x xs)"

text \<open>
  The campaign name as the specification words it: the first value other than \<open>None\<close>
  among the aliases of the campaign and then of its nested campaign object.
\<close>

definition normalize_campaign_name_spec :: "jdict \<Rightarrow> json" where
  "normalize_campaign_name_spec campaign =
     (case find (\<lambda>v. v \<noteq> JNull)
             (map (dict_get campaign) [''name'', ''title'', ''campaign_name''] @
              map (dict_get (case dict_get campaign ''campaign'' of JObj n \<Rightarrow> n | _ \<Rightarrow> []))
                [''name'', ''title'']) of
        Some v \<Rightarrow> v
      | None \<Rightarrow> JStr '''')"

text \<open>
  List normalization as the specification words it: an object gives the first of its
  name, label, title, id that is present, or its JSON text when none is; the strings
  are deduplicated in first-seen order and joined.
\<close>

definition item_text_spec :: "(json \<Rightarrow> string) \<Rightarrow> (json \<Rightarrow> string) \<Rightarrow> json \<Rightarrow> string" where
  "item_text_spec strf dumps item =
     (case item of
        JStr s \<Rightarrow> s
      | JObj d \<Rightarrow>
          (case first_present d [''name'', ''label'', ''title'', ''id''] of
             Some v \<Rightarrow> py_str strf v
           | None \<Rightarrow> dumps item)
      | _ \<Rightarrow> py_str strf item)"

definition normalize_list_spec :: "(json \<Rightarrow> string) \<Rightarrow> (json \<Rightarrow> string) \<Rightarrow> json \<Rightarrow> string" where
  "normalize_list_spec strf dumps x =
     (case x of
        JNull \<Rightarrow> []
      | JList xs \<Rightarrow> join '', '' (uniq (map (item_text_spec strf dumps) xs))
      | _ \<Rightarrow> py_str strf x)"

section \<open>Sample inputs\<close>

text \<open>
  A stand-in for \<open>str\<close> and \<open>json.dumps\<close> on concrete inputs: it prints every value
  the same way.
\<close>

definition opaque_text :: "json \<Rightarrow> string" where
  "opaque_text v = ''<text>''"

text \<open>\<open>urljoin\<close> for a base that ends in a slash and a plain relative path.\<close>

definition plain_urljoin :: "string \<Rightarrow> string \<Rightarrow> string" where
  "plain_urljoin base rel = base @ rel"





text \<open>
  A server of three full pages of 100 campaigns, sent as arrays (so without a pointer),
  that answers every later request with an empty page; and a server whose first page
  holds one campaign and a pointer, and whose later pages are empty.
\<close>

definition three_page_server :: "nat server" where
  "three_page_server n req =
     (Response 200 (Some (JList (if n < 3 then replicate 100 (JObj []) else []))), Suc n)"

definition pointer_server :: "nat server" where
  "pointer_server n req =
     (Response 200
        (Some (if n = 0
               then JObj [(''results'', JList [JObj []]),
                          (''next'', JStr ''https://api.liaufa.com/p2'')]
               else JObj [(''results'', JList [])])),
      Suc n)"

section \<open>Properties\<close>

subsection \<open>Response shapes\<close>

text \<open>
  C8 (amended). An array body is the item list itself, with no pointer. For an object
  body the item list is the first truthy value among results, items, data, and the
  empty list when none is truthy; the pointer is the first truthy value among next and
  nextPage, and otherwise whatever next\_page holds (\<open>None\<close> when absent). Any other
  body raises \<open>AttributeError\<close>.
\<close>

theorem extract_list_and_next_shape:
  "extract_list_and_next (JList xs) = Inr (JList xs, JNull) \<and>
   extract_list_and_next (JObj d) =
     Inr (case find truthy (map (dict_get d) [''results'', ''items'', ''data'']) of
            Some v \<Rightarrow> v | None \<Rightarrow> JList [],
          case find truthy (map (dict_get d) [''next'', ''nextPage'']) of
            Some v \<Rightarrow> v | None \<Rightarrow> dict_get d ''next_page'') \<and>
   extract_list_and_next JNull = Inl AttributeError \<and>
   extract_list_and_next (JBool b) = Inl AttributeError \<and>
   extract_list_and_next (JInt n) = Inl AttributeError \<and>
   extract_list_and_next (JStr s) = Inl AttributeError"
  by (simp add: extract_list_and_next_def py_or_def)

theorem extract_list_and_next_shape_witness:
  "extract_list_and_next (JObj [(''results'', JList []), (''items'', JList [JInt 1]),
                                 (''next'', JStr ''''), (''next_page'', JStr ''/p2'')])
     = Inr (JList [JInt 1], JStr ''/p2'')"
  using extract_list_and_next_shape
    [of "[]" "[(''results'', JList []), (''items'', JList [JInt 1]),
              (''next'', JStr ''''), (''next_page'', JStr ''/p2'')]" True 0 "[]"]
  by (simp add: dict_get_def)

text \<open>
  C8 as stated fails: a present but empty results key is skipped in favour of items,
  where the first present key would give the empty list; and a body that is neither an
  array nor an object raises instead of giving an empty item list.
\<close>

theorem extract_list_and_next_first_present_counterexample:
  "extract_list_and_next (JObj [(''results'', JList []), (''items'', JList [JInt 1])])
     = Inr (JList [JInt 1], JNull) \<and>
   extract_list_and_next_spec (JObj [(''results'', JList []), (''items'', JList [JInt 1])])
     = (JList [], JNull) \<and>
   extract_list_and_next (JStr ''oops'') = Inl AttributeError \<and>
   extract_list_and_next_spec (JStr ''oops'') = (JList [], JNull)"
  by (simp add: extract_list_and_next_def extract_list_and_next_spec_def py_or_def dict_get_def)

subsection \<open>Field resolution\<close>

lemma get_first_find:
  "get_first (JObj d) ks dflt =
     (case find (\<lambda>v. v \<noteq> JNull) (map (dict_get d) ks) of Some v \<Rightarrow> v | None \<Rightarrow> dflt)"
  by (induction ks) (auto simp: dict_get_def split: option.splits)

lemma campaign_of_row:
  "(case py_or (JObj c) (JObj []) of JObj c' \<Rightarrow> c' | _ \<Rightarrow> []) = c"
  by (cases c) (simp_all add: py_or_def)

lemma flatten_row_columns:
  assumes "dict_get row ''campaign'' = JObj c"
  shows "dict_get (flatten_row strf dumps row) ''campaign_name'' = normalize_campaign_name c"
    and "dict_get (flatten_row strf dumps row) ''campaign_instance_id'' =
           get_first (JObj c) [''id'', ''_id'', ''pk'', ''uuid'', ''campaign_instance_id''] JNull"
    and "dict_get (flatten_row strf dumps row) ''status'' =
           get_first (JObj c) [''status'', ''state''] JNull"
    and "dict_get (flatten_row strf dumps row) ''activated'' =
           get_first (JObj c) [''activated'', ''activated_at'', ''activatedAt''] JNull"
    and "dict_get (flatten_row strf dumps row) ''deactivated'' =
           get_first (JObj c) [''deactivated'', ''deactivated_at'', ''deactivatedAt''] JNull"
  using assms by (simp_all add: flatten_row_def Let_def campaign_of_row dict_get_def[of "_ # _"])

text \<open>
  C7 (amended). For a record whose campaign is an object, the id, status, activation and
  deactivation columns hold the first value other than \<open>None\<close> among the field's
  aliases, and \<open>None\<close> when there is none. The name column holds the first such
  value among name, title, campaign\_name when that value is truthy; otherwise the
  first such value among the nested campaign object's name, title when truthy;
  otherwise the empty string. A campaign with title Foo and no name resolves to Foo.
  Resolution is a total function: no input raises.
\<close>

theorem field_resolution:
  assumes "dict_get row ''campaign'' = JObj c"
  shows "dict_get (flatten_row strf dumps row) ''campaign_instance_id'' =
           (case find (\<lambda>v. v \<noteq> JNull)
                   (map (dict_get c) [''id'', ''_id'', ''pk'', ''uuid'', ''campaign_instance_id'']) of
              Some v \<Rightarrow> v | None \<Rightarrow> JNull)
       \<and> dict_get (flatten_row strf dumps row) ''status'' =
           (case find (\<lambda>v. v \<noteq> JNull) (map (dict_get c) [''status'', ''state'']) of
              Some v \<Rightarrow> v | None \<Rightarrow> JNull)
       \<and> dict_get (flatten_row strf dumps row) ''activated'' =
           (case find (\<lambda>v. v \<noteq> JNull)
                   (map (dict_get c) [''activated'', ''activated_at'', ''activatedAt'']) of
              Some v \<Rightarrow> v | None \<Rightarrow> JNull)
       \<and> dict_get (flatten_row strf dumps row) ''deactivated'' =
           (case find (\<lambda>v. v \<noteq> JNull)
                   (map (dict_get c) [''deactivated'', ''deactivated_at'', ''deactivatedAt'']) of
              Some v \<Rightarrow> v | None \<Rightarrow> JNull)
       \<and> dict_get (flatten_row strf dumps row) ''campaign_name'' =
           (let top = (case find (\<lambda>v. v \<noteq> JNull)
                              (map (dict_get c) [''name'', ''title'', ''campaign_name'']) of
                         Some v \<Rightarrow> v | None \<Rightarrow> JNull);
                sub = (case dict_get c ''campaign'' of JObj n \<Rightarrow> n | _ \<Rightarrow> []);
                nested = (case find (\<lambda>v. v \<noteq> JNull) (map (dict_get sub) [''name'', ''title'']) of
                            Some v \<Rightarrow> v | None \<Rightarrow> JNull)
            in if truthy top then top else if truthy nested then nested else JStr '''')
       \<and> normalize_campaign_name [(''title'', JStr ''Foo'')] = JStr ''Foo''"
proof -
  have sub: "get_first (case dict_get c ''campaign'' of JObj n \<Rightarrow> JObj n | _ \<Rightarrow> JObj []) ks d =
             get_first (JObj (case dict_get c ''campaign'' of JObj n \<Rightarrow> n | _ \<Rightarrow> [])) ks d" for ks d
    by (cases "dict_get c ''campaign''") simp_all
  have name: "normalize_campaign_name c =
           (let top = (case find (\<lambda>v. v \<noteq> JNull)
                              (map (dict_get c) [''name'', ''title'', ''campaign_name'']) of
                         Some v \<Rightarrow> v | None \<Rightarrow> JNull);
                sub = (case dict_get c ''campaign'' of JObj n \<Rightarrow> n | _ \<Rightarrow> []);
                nested = (case find (\<lambda>v. v \<noteq> JNull) (map (dict_get sub) [''name'', ''title'']) of
                            Some v \<Rightarrow> v | None \<Rightarrow> JNull)
            in if truthy top then top else if truthy nested then nested else JStr '''')"
    unfolding normalize_campaign_name_def sub get_first_find py_or_def Let_def by simp
  have foo: "normalize_campaign_name [(''title'', JStr ''Foo'')] = JStr ''Foo''"
    by (simp add: normalize_campaign_name_def py_or_def dict_get_def)
  show ?thesis
    using flatten_row_columns[OF assms, of strf dumps] name foo
    by (simp only: get_first_find)
qed

theorem field_resolution_witness:
  "dict_get (flatten_row opaque_text opaque_text
       [(''account_name'', JStr ''A''),
        (''campaign'', JObj [(''name'', JStr ''''), (''state'', JStr ''ACTIVE''),
                             (''campaign'', JObj [(''name'', JStr ''N'')])])]) ''campaign_name''
     = JStr ''N'' \<and>
   dict_get (flatten_row opaque_text opaque_text
       [(''account_name'', JStr ''A''),
        (''campaign'', JObj [(''name'', JStr ''''), (''state'', JStr ''ACTIVE''),
                             (''campaign'', JObj [(''name'', JStr ''N'')])])]) ''status''
     = JStr ''ACTIVE'' \<and>
   dict_get (flatten_row opaque_text opaque_text
       [(''account_name'', JStr ''A''),
        (''campaign'', JObj [(''name'', JStr ''''), (''state'', JStr ''ACTIVE''),
                             (''campaign'', JObj [(''name'', JStr ''N'')])])]) ''activated''
     = JNull"
proof -
  have h: "dict_get [(''account_name'', JStr ''A''),
        (''campaign'', JObj [(''name'', JStr ''''), (''state'', JStr ''ACTIVE''),
                             (''campaign'', JObj [(''name'', JStr ''N'')])])] ''campaign''
       = JObj [(''name'', JStr ''''), (''state'', JStr ''ACTIVE''),
                             (''campaign'', JObj [(''name'', JStr ''N'')])]"
    by (simp add: dict_get_def)
  show ?thesis
    using field_resolution[OF h, of opaque_text opaque_text]
    by (simp add: dict_get_def)
qed

text \<open>
  C7 as stated fails for the name: an empty top-level name is not \<open>None\<close>, yet the
  nested campaign's name is returned.
\<close>

theorem campaign_name_first_non_null_counterexample:
  "normalize_campaign_name
     [(''name'', JStr ''''), (''campaign'', JObj [(''name'', JStr ''N'')])] = JStr ''N'' \<and>
   normalize_campaign_name_spec
     [(''name'', JStr ''''), (''campaign'', JObj [(''name'', JStr ''N'')])] = JStr ''''"
  by (simp add: normalize_campaign_name_def normalize_campaign_name_spec_def py_or_def dict_get_def)

subsection \<open>List normalization\<close>

lemma dedup_uniq:
  "dedup seen vs = uniq (filter (\<lambda>v. v \<notin> set seen \<and> v \<noteq> []) vs)"
proof (induction vs arbitrary: seen)
  case Nil
  then show ?case by simp
next
  case (Cons v vs)
  have "removeAll v (filter (\<lambda>u. u \<notin> set seen \<and> u \<noteq> []) vs)
        = filter (\<lambda>u. u \<notin> set (v # seen) \<and> u \<noteq> []) vs"
    by (induction vs) auto
  with Cons show ?case by simp
qed

text \<open>
  C5 (amended). \<open>normalize_list\<close> returns its own output unchanged; it maps the list
  a, b to "a, b"; it maps a list to the texts of its items, empty texts dropped,
  deduplicated in first-seen order and joined with a comma and a space, where the text
  of an object is the first truthy value among its name, label, title, id, or its JSON
  text when none is truthy; two objects named x give "x".
\<close>

theorem normalize_list_properties:
  "normalize_list strf dumps (JStr (normalize_list strf dumps x)) = normalize_list strf dumps x \<and>
   normalize_list strf dumps (JList [JStr ''a'', JStr ''b'']) = ''a, b'' \<and>
   normalize_list strf dumps (JList xs) =
     join '', '' (uniq (filter (\<lambda>v. v \<noteq> []) (map (item_text strf dumps) xs))) \<and>
   item_text strf dumps (JObj d) =
     (case find truthy (map (dict_get d) [''name'', ''label'', ''title'', ''id'']) of
        Some v \<Rightarrow> py_str strf v
      | None \<Rightarrow> dumps (JObj d)) \<and>
   normalize_list strf dumps (JList [JObj [(''name'', JStr ''x'')], JObj [(''name'', JStr ''x'')]])
     = ''x''"
proof -
  have a: "normalize_list strf dumps (JStr (normalize_list strf dumps x)) = normalize_list strf dumps x"
    by (simp add: normalize_list_def py_str_def)
  have b: "normalize_list strf dumps (JList [JStr ''a'', JStr ''b'']) = ''a, b''"
    by (simp add: normalize_list_def item_text_def)
  have c: "normalize_list strf dumps (JList xs) =
     join '', '' (uniq (filter (\<lambda>v. v \<noteq> []) (map (item_text strf dumps) xs)))"
    by (simp add: normalize_list_def dedup_uniq)
  have d: "item_text strf dumps (JObj d) =
     (case find truthy (map (dict_get d) [''name'', ''label'', ''title'', ''id'']) of
        Some v \<Rightarrow> py_str strf v
      | None \<Rightarrow> dumps (JObj d))"
    by (simp add: item_text_def py_or_def py_str_def)
  have e: "normalize_list strf dumps (JList [JObj [(''name'', JStr ''x'')], JObj [(''name'', JStr ''x'')]])
     = ''x''"
    by (simp add: normalize_list_def item_text_def py_or_def py_str_def dict_get_def)
  from a b c d e show ?thesis by blast
qed

theorem normalize_list_properties_witness:
  "normalize_list opaque_text opaque_text
     (JList [JObj [(''name'', JStr ''''), (''label'', JStr ''L'')], JStr '''', JStr ''b'',
             JObj [(''title'', JStr ''L'')], JObj [(''id'', JInt 0)]])
   = ''L, b, <text>'' \<and>
   normalize_list opaque_text opaque_text (JStr ''L, b, <text>'') = ''L, b, <text>''"
  using normalize_list_properties
    [of opaque_text opaque_text
        "JList [JObj [(''name'', JStr ''''), (''label'', JStr ''L'')], JStr '''', JStr ''b'',
             JObj [(''title'', JStr ''L'')], JObj [(''id'', JInt 0)]]"
        "[JObj [(''name'', JStr ''''), (''label'', JStr ''L'')], JStr '''', JStr ''b'',
             JObj [(''title'', JStr ''L'')], JObj [(''id'', JInt 0)]]" "[]"]
  by (simp add: normalize_list_def item_text_def py_or_def py_str_def dict_get_def opaque_text_def)

text \<open>
  C5 as stated fails: an object whose name is present but empty is reduced to its
  label, where the first present field would give the empty string.
\<close>

theorem normalize_list_first_present_counterexample:
  "normalize_list opaque_text opaque_text
     (JList [JObj [(''name'', JStr ''''), (''label'', JStr ''L'')]]) = ''L'' \<and>
   normalize_list_spec opaque_text opaque_text
     (JList [JObj [(''name'', JStr ''''), (''label'', JStr ''L'')]]) = ''''"
  by (simp add: normalize_list_def normalize_list_spec_def item_text_def item_text_spec_def
        py_or_def py_str_def dict_get_def)

subsection \<open>Rate limiting\<close>








subsection \<open>Pagination\<close>

lemma loop_step:
  assumes "session_get_json fuel room srv (page_request url headers page limit) w = (Returned data, w1, fuel1)"
    and "extract_list_and_next data = Inr (campaigns, next_url)"
    and "py_iter campaigns = Inr xs"
  shows "fetch_campaigns_loop urljoin room srv headers limit url page acc w fuel =
     (if truthy next_url then
        (case next_url of
           JStr s \<Rightarrow> fetch_campaigns_loop urljoin room srv headers limit
                       (resolve_url urljoin s) (page + 1) (acc @ xs) w1 fuel1
         | _ \<Rightarrow> (Raised AttributeError, w1, fuel1))
      else if int (length xs) < limit then (Returned (acc @ xs), w1, fuel1)
      else fetch_campaigns_loop urljoin room srv headers limit url (page + 1) (acc @ xs) w1 fuel1)"
  using assms unfolding page_request_def
  by (subst fetch_campaigns_loop.simps) simp

lemma session_get_json_prefix:
  "session_get_json n room srv req w = (r, w1, f1) \<Longrightarrow> \<exists>rest. trace w1 = trace w @ rest"
proof (induction n arbitrary: w room)
  case 0
  then show ?case by simp
next
  case (Suc n)
  then show ?case
    by (fastforce simp: Let_def split: prod.splits reply.splits if_splits option.splits nat.splits)
qed

lemma session_get_json_first:
  "session_get_json (Suc n) room srv req w = (r, w1, f1) \<Longrightarrow> \<exists>rest. trace w1 = trace w @ Get req # rest"
  by (fastforce simp: Let_def split: prod.splits reply.splits if_splits option.splits nat.splits
        dest: session_get_json_prefix)

lemma loop_prefix:
  "fetch_campaigns_loop urljoin room srv headers limit url page acc w fuel = (r, w', f') \<Longrightarrow>
   \<exists>rest. trace w' = trace w @ rest"
proof (induction urljoin room srv headers limit url page acc w fuel arbitrary: r w' f'
       rule: fetch_campaigns_loop.induct)
  case (1 urljoin room srv headers limit url page all_campaigns w fuel)
  obtain r0 w1 fuel1 where g: "session_get_json fuel room srv
             \<lparr>req_url = url, req_headers = headers,
              req_params = Some [(''page'', page), (''limit'', limit)]\<rparr> w = (r0, w1, fuel1)"
    by (metis prod_cases3)
  then obtain rest1 where p1: "trace w1 = trace w @ rest1"
    using session_get_json_prefix by blast
  show ?case
  proof (cases r0)
    case (Returned data)
    show ?thesis
    proof (cases "extract_list_and_next data")
      case (Inl e)
      with 1(3) g Returned p1 show ?thesis
        by (subst (asm) fetch_campaigns_loop.simps) auto
    next
      case (Inr cn)
      obtain campaigns next_url where cn: "cn = (campaigns, next_url)" by (cases cn)
      show ?thesis
      proof (cases "py_iter campaigns")
        case (Inl e)
        with 1(3) g Returned Inr cn p1 show ?thesis
          by (subst (asm) fetch_campaigns_loop.simps) auto
      next
        case it: (Inr xs)
        show ?thesis
        proof (cases "truthy next_url")
          case True
          show ?thesis
          proof (cases next_url)
            case (JStr s)
            have "fetch_campaigns_loop urljoin room srv headers limit (resolve_url urljoin s) (page + 1)
                    (all_campaigns @ xs) w1 fuel1 = (r, w', f')"
              using 1(3) g Returned Inr cn it True JStr
              by (subst (asm) fetch_campaigns_loop.simps) simp
            from 1(1)[OF g[symmetric] Returned refl Inr cn[symmetric] it True JStr this]
            show ?thesis using p1 by auto
          qed (use 1(3) g Returned Inr cn it True p1 in
                \<open>(subst (asm) fetch_campaigns_loop.simps, auto)+\<close>)
        next
          case False
          show ?thesis
          proof (cases "int (length xs) < limit")
            case True
            with 1(3) g Returned Inr cn it False p1 show ?thesis
              by (subst (asm) fetch_campaigns_loop.simps) auto
          next
            case full: False
            have "fetch_campaigns_loop urljoin room srv headers limit url (page + 1)
                    (all_campaigns @ xs) w1 fuel1 = (r, w', f')"
              using 1(3) g Returned Inr cn it False full
              by (subst (asm) fetch_campaigns_loop.simps) simp
            from 1(2)[OF g[symmetric] Returned refl Inr cn[symmetric] it False full this]
            show ?thesis using p1 by auto
          qed
        qed
      qed
    qed
  next
    case (Raised e)
    with 1(3) g p1 show ?thesis
      by (subst (asm) fetch_campaigns_loop.simps) auto
  next
    case OutOfFuel
    with 1(3) g p1 show ?thesis
      by (subst (asm) fetch_campaigns_loop.simps) auto
  qed
qed

lemma loop_after_get:
  assumes "session_get_json fuel room srv (page_request url headers page limit) w = (r0, w1, fuel1)"
    and "fetch_campaigns_loop urljoin room srv headers limit url page acc w fuel = (r, w', f')"
  shows "\<exists>rest. trace w' = trace w1 @ rest"
  using assms(2) assms(1)[unfolded page_request_def]
  by (subst (asm) fetch_campaigns_loop.simps)
     (auto split: sum.splits prod.splits outcome.splits json.splits if_splits dest: loop_prefix)

lemma loop_first:
  assumes "fetch_campaigns_loop urljoin room srv headers limit url page acc w (Suc n) = (r, w', f')"
  shows "\<exists>rest. trace w' = trace w @ Get (page_request url headers page limit) # rest"
proof -
  obtain r0 w1 fuel1 where
    g: "session_get_json (Suc n) room srv (page_request url headers page limit) w = (r0, w1, fuel1)"
    by (metis prod_cases3)
  from session_get_json_first[OF g] obtain rest1 where
    "trace w1 = trace w @ Get (page_request url headers page limit) # rest1" by blast
  moreover from loop_after_get[OF g assms] obtain rest2 where "trace w' = trace w1 @ rest2"
    by blast
  ultimately show ?thesis by simp
qed

lemma loop_first_trace:
  "0 < fuel \<Longrightarrow>
   \<exists>rest. trace (fst (snd (fetch_campaigns_loop urljoin room srv headers limit url page acc w fuel))) =
     trace w @ Get (page_request url headers page limit) # rest"
  using loop_first[of urljoin room srv headers limit url page acc w "fuel - 1"]
  by (cases "fetch_campaigns_loop urljoin room srv headers limit url page acc w fuel") auto







lemma loop_continue:
  assumes "srv (srv_state w) (page_request url headers page limit) = (Response 200 (Some d), s')"
    and "extract_list_and_next d = Inr (JList xs, n)"
    and "\<not> truthy n \<or> (\<exists>s. n = JStr s)"
    and "truthy n \<or> limit \<le> int (length xs)"
  shows "\<exists>u. (\<not> truthy n \<longrightarrow> u = url) \<and>
           fetch_campaigns_loop urljoin room srv headers limit url page acc w (Suc k) =
           fetch_campaigns_loop urljoin room srv headers limit u (page + 1) (acc @ xs)
             \<lparr>srv_state = s', trace = trace w @ [Get (page_request url headers page limit)]\<rparr> k"
proof -
  have g: "session_get_json (Suc k) room srv (page_request url headers page limit) w =
           (Returned d,
            \<lparr>srv_state = s', trace = trace w @ [Get (page_request url headers page limit)]\<rparr>, k)"
    using assms(1) by simp
  note step = loop_step[OF g assms(2) py_iter.simps(1), of urljoin acc]
  show ?thesis
  proof (cases "truthy n")
    case True
    with assms(3) obtain s where "n = JStr s" by blast
    with step True show ?thesis by auto
  next
    case False
    with assms(4) step show ?thesis by auto
  qed
qed

lemma loop_stop:
  assumes "srv (srv_state w) (page_request url headers page limit) = (Response 200 (Some d), s')"
    and "extract_list_and_next d = Inr (JList xs, n)"
    and "\<not> truthy n"
    and "int (length xs) < limit"
  shows "fetch_campaigns_loop urljoin room srv headers limit url page acc w (Suc k) =
           (Returned (acc @ xs),
            \<lparr>srv_state = s', trace = trace w @ [Get (page_request url headers page limit)]\<rparr>, k)"
proof -
  have g: "session_get_json (Suc k) room srv (page_request url headers page limit) w =
           (Returned d,
            \<lparr>srv_state = s', trace = trace w @ [Get (page_request url headers page limit)]\<rparr>, k)"
    using assms(1) by simp
  from loop_step[OF g assms(2) py_iter.simps(1), of urljoin acc] assms(3,4)
  show ?thesis by simp
qed

text \<open>
  C1 (amended). When the first three answers are full pages of 100 items, the third
  without a pointer, the paginator sends a fourth request, to the URL of the third
  and with page 4. When that request is answered with fewer than 100 items and no
  pointer, the paginator returns the items of all four pages after exactly four GETs.
\<close>

theorem three_full_pages:
  assumes r1: "\<And>req. srv (srv_state w) req = (Response 200 (Some d1), s1)"
    and r2: "\<And>req. srv s1 req = (Response 200 (Some d2), s2)"
    and r3: "\<And>req. srv s2 req = (Response 200 (Some d3), s3)"
    and e1: "extract_list_and_next d1 = Inr (JList xs1, n1)"
    and e2: "extract_list_and_next d2 = Inr (JList xs2, n2)"
    and e3: "extract_list_and_next d3 = Inr (JList xs3, n3)"
    and l1: "length xs1 = 100" and l2: "length xs2 = 100" and l3: "length xs3 = 100"
    and p1: "\<not> truthy n1 \<or> (\<exists>s. n1 = JStr s)"
    and p2: "\<not> truthy n2 \<or> (\<exists>s. n2 = JStr s)"
    and p3: "\<not> truthy n3"
  shows "(\<exists>q1 q2 u rest.
            trace (fst (snd (fetch_campaigns_for_account urljoin room srv headers account_id w
                               (Suc (Suc (Suc (Suc k))))))) =
            trace w @ [Get q1, Get q2, Get (page_request u headers 3 100),
                       Get (page_request u headers 4 100)] @ rest)
       \<and> ((\<forall>req. srv s3 req = (Response 200 (Some d4), s4)) \<and>
           extract_list_and_next d4 = Inr (JList xs4, n4) \<and> \<not> truthy n4 \<and> length xs4 < 100 \<longrightarrow>
           (\<exists>q1 q2 q3 q4.
              fetch_campaigns_for_account urljoin room srv headers account_id w
                (Suc (Suc (Suc (Suc k)))) =
              (Returned (xs1 @ xs2 @ xs3 @ xs4),
               \<lparr>srv_state = s4, trace = trace w @ [Get q1, Get q2, Get q3, Get q4]\<rparr>, k)))"
proof -
  define u1 where "u1 = urljoin (BASE_URL @ ''/'') (lstrip ''/'' (CAMPAIGNS_PATH account_id))"
  define w1 where "w1 = \<lparr>srv_state = s1, trace = trace w @ [Get (page_request u1 headers 1 100)]\<rparr>"
  have start: "fetch_campaigns_for_account urljoin room srv headers account_id w fuel =
               fetch_campaigns_loop urljoin room srv headers 100 u1 1 [] w fuel" for fuel
    by (simp add: fetch_campaigns_for_account_def DEFAULT_PARAMS_def u1_def)
  from loop_continue[where srv=srv and w=w and url=u1 and headers=headers and page=1 and limit=100
         and urljoin=urljoin and acc="[]" and k="Suc (Suc (Suc k))", OF r1 e1 p1] l1
  obtain u2 where s1: "fetch_campaigns_loop urljoin room srv headers 100 u1 1 [] w (Suc (Suc (Suc (Suc k)))) =
      fetch_campaigns_loop urljoin room srv headers 100 u2 2 xs1 w1 (Suc (Suc (Suc k)))"
    by (auto simp: w1_def)
  define w2 where "w2 = \<lparr>srv_state = s2, trace = trace w1 @ [Get (page_request u2 headers 2 100)]\<rparr>"
  have r2': "srv (srv_state w1) req = (Response 200 (Some d2), s2)" for req
    by (simp add: w1_def r2)
  from loop_continue[where srv=srv and w=w1 and url=u2 and headers=headers and page=2 and limit=100
         and urljoin=urljoin and acc=xs1 and k="Suc (Suc k)", OF r2' e2 p2] l2
  obtain u3 where s2: "fetch_campaigns_loop urljoin room srv headers 100 u2 2 xs1 w1 (Suc (Suc (Suc k))) =
      fetch_campaigns_loop urljoin room srv headers 100 u3 3 (xs1 @ xs2) w2 (Suc (Suc k))"
    by (auto simp: w2_def)
  define w3 where "w3 = \<lparr>srv_state = s3, trace = trace w2 @ [Get (page_request u3 headers 3 100)]\<rparr>"
  have r3': "srv (srv_state w2) req = (Response 200 (Some d3), s3)" for req
    by (simp add: w2_def r3)
  from loop_continue[where srv=srv and w=w2 and url=u3 and headers=headers and page=3 and limit=100
         and urljoin=urljoin and acc="xs1 @ xs2" and k="Suc k", OF r3' e3] l3 p3
  have s3: "fetch_campaigns_loop urljoin room srv headers 100 u3 3 (xs1 @ xs2) w2 (Suc (Suc k)) =
      fetch_campaigns_loop urljoin room srv headers 100 u3 4 (xs1 @ xs2 @ xs3) w3 (Suc k)"
    by (auto simp: w3_def)
  have run: "fetch_campaigns_for_account urljoin room srv headers account_id w (Suc (Suc (Suc (Suc k)))) =
      fetch_campaigns_loop urljoin room srv headers 100 u3 4 (xs1 @ xs2 @ xs3) w3 (Suc k)"
    by (simp only: start s1 s2 s3)
  have tr3: "trace w3 = trace w @ [Get (page_request u1 headers 1 100), Get (page_request u2 headers 2 100),
                                   Get (page_request u3 headers 3 100)]"
    by (simp add: w3_def w2_def w1_def)
  have A: "\<exists>q1 q2 u rest.
            trace (fst (snd (fetch_campaigns_for_account urljoin room srv headers account_id w
                               (Suc (Suc (Suc (Suc k))))))) =
            trace w @ [Get q1, Get q2, Get (page_request u headers 3 100),
                       Get (page_request u headers 4 100)] @ rest"
  proof -
    from loop_first_trace[of "Suc k" urljoin room srv headers 100 u3 4 "xs1 @ xs2 @ xs3" w3]
    obtain rest where "trace (fst (snd (fetch_campaigns_loop urljoin room srv headers 100 u3 4
                          (xs1 @ xs2 @ xs3) w3 (Suc k)))) =
                       trace w3 @ Get (page_request u3 headers 4 100) # rest"
      by auto
    then have "trace (fst (snd (fetch_campaigns_for_account urljoin room srv headers account_id w
                               (Suc (Suc (Suc (Suc k))))))) =
            trace w @ [Get (page_request u1 headers 1 100), Get (page_request u2 headers 2 100),
                       Get (page_request u3 headers 3 100), Get (page_request u3 headers 4 100)] @ rest"
      by (simp add: run tr3)
    then show ?thesis by blast
  qed
  have B: "\<exists>q1 q2 q3 q4.
              fetch_campaigns_for_account urljoin room srv headers account_id w
                (Suc (Suc (Suc (Suc k)))) =
              (Returned (xs1 @ xs2 @ xs3 @ xs4),
               \<lparr>srv_state = s4, trace = trace w @ [Get q1, Get q2, Get q3, Get q4]\<rparr>, k)"
    if r4: "\<forall>req. srv s3 req = (Response 200 (Some d4), s4)"
      and e4: "extract_list_and_next d4 = Inr (JList xs4, n4)"
      and p4: "\<not> truthy n4" and l4: "length xs4 < 100"
  proof -
    have r4': "srv (srv_state w3) (page_request u3 headers 4 100) = (Response 200 (Some d4), s4)"
      using r4 by (simp add: w3_def)
    from loop_stop[where srv=srv and w=w3 and url=u3 and headers=headers and page=4 and limit=100
         and urljoin=urljoin and acc="xs1 @ xs2 @ xs3" and k=k, OF r4' e4 p4] l4
    have "fetch_campaigns_for_account urljoin room srv headers account_id w (Suc (Suc (Suc (Suc k)))) =
          (Returned (xs1 @ xs2 @ xs3 @ xs4),
           \<lparr>srv_state = s4,
              trace = trace w @ [Get (page_request u1 headers 1 100), Get (page_request u2 headers 2 100),
                       Get (page_request u3 headers 3 100), Get (page_request u3 headers 4 100)]\<rparr>, k)"
      by (simp add: run tr3)
    then show ?thesis by blast
  qed
  show ?thesis using A B by blast
qed

theorem three_full_pages_witness:
  "\<exists>q1 q2 q3 q4.
     fetch_campaigns_for_account plain_urljoin 1000 three_page_server [] ''42''
       \<lparr>srv_state = 0, trace = []\<rparr> (Suc (Suc (Suc (Suc 0)))) =
     (Returned (replicate 100 (JObj []) @ replicate 100 (JObj []) @ replicate 100 (JObj []) @ []),
      \<lparr>srv_state = Suc (Suc (Suc (Suc 0))), trace = [] @ [Get q1, Get q2, Get q3, Get q4]\<rparr>, 0)"
proof -
  have r1: "\<And>req. three_page_server (srv_state \<lparr>srv_state = 0, trace = []\<rparr>) req =
              (Response 200 (Some (JList (replicate 100 (JObj [])))), Suc 0)"
    by (simp add: three_page_server_def)
  have r2: "\<And>req. three_page_server (Suc 0) req =
              (Response 200 (Some (JList (replicate 100 (JObj [])))), Suc (Suc 0))"
    by (simp add: three_page_server_def)
  have r3: "\<And>req. three_page_server (Suc (Suc 0)) req =
              (Response 200 (Some (JList (replicate 100 (JObj [])))), Suc (Suc (Suc 0)))"
    by (simp add: three_page_server_def)
  have r4: "\<forall>req. three_page_server (Suc (Suc (Suc 0))) req =
              (Response 200 (Some (JList [])), Suc (Suc (Suc (Suc 0))))"
    by (simp add: three_page_server_def)
  have e: "extract_list_and_next (JList (replicate 100 (JObj []))) =
              Inr (JList (replicate 100 (JObj [])), JNull)"
    by (simp add: extract_list_and_next_def)
  have e4: "extract_list_and_next (JList []) = Inr (JList [], JNull)"
    by (simp add: extract_list_and_next_def)
  have l: "length (replicate 100 (JObj [])) = 100" by simp
  have p: "\<not> truthy JNull \<or> (\<exists>s. JNull = JStr s)" by simp
  have p3: "\<not> truthy JNull" by simp
  from three_full_pages[where srv=three_page_server and w="\<lparr>srv_state = 0, trace = []\<rparr>"
         and urljoin=plain_urljoin and headers="[]" and account_id="''42''" and k=0
         and ?d4.0="JList []" and ?xs4.0="[]" and ?n4.0=JNull and ?s4.0="Suc (Suc (Suc (Suc 0)))",
         OF r1 r2 r3 e e e l l l p p p3] r4 e4
  show ?thesis by simp
qed

text \<open>
  C1 as stated fails: against the synthetic three-page server the paginator sends four
  GETs, not three; the fourth asks for page 4.
\<close>

theorem three_full_pages_counterexample:
  "fetch_campaigns_for_account plain_urljoin 1000 three_page_server [] ''42''
     \<lparr>srv_state = 0, trace = []\<rparr> 10 =
   (Returned (replicate 300 (JObj [])),
    \<lparr>srv_state = 4,
       trace = [Get \<lparr>req_url = ''https://api.liaufa.com/api/v1/open-api/v2/li_accounts/42/campaign_instances/'',
                     req_headers = [], req_params = Some [(''page'', 1), (''limit'', 100)]\<rparr>,
                Get \<lparr>req_url = ''https://api.liaufa.com/api/v1/open-api/v2/li_accounts/42/campaign_instances/'',
                     req_headers = [], req_params = Some [(''page'', 2), (''limit'', 100)]\<rparr>,
                Get \<lparr>req_url = ''https://api.liaufa.com/api/v1/open-api/v2/li_accounts/42/campaign_instances/'',
                     req_headers = [], req_params = Some [(''page'', 3), (''limit'', 100)]\<rparr>,
                Get \<lparr>req_url = ''https://api.liaufa.com/api/v1/open-api/v2/li_accounts/42/campaign_instances/'',
                     req_headers = [], req_params = Some [(''page'', 4), (''limit'', 100)]\<rparr>]\<rparr>,
    6)"
  by code_simp

subsection \<open>Accounts without an identifier\<close>

lemma pick_first_id_none:
  "\<forall>key \<in> set keys. dict_get acc key = JNull \<Longrightarrow> pick_first_id strf acc keys = None"
  by (induction keys) simp_all

lemma main_loop_skip:
  assumes "pick_account_id strf acc = None"
  shows "main_loop urljoin room strf srv headers (before @ JObj acc # accounts) all_rows w fuel =
         main_loop urljoin room strf srv headers (before @ accounts) all_rows w fuel"
proof (induction before arbitrary: all_rows w fuel)
  case Nil
  then show ?case using assms by simp
next
  case (Cons a before)
  then show ?case
    by (simp split: json.splits option.splits prod.splits outcome.splits)
qed

text \<open>
  C10. An account whose identifier aliases are all absent or \<open>None\<close> has no identifier
  and is skipped: wherever it stands in the list, the run is the run without it, so no
  request is sent for it, no row is added for it, and the remaining accounts are
  processed.
\<close>

theorem skip_account_without_id:
  assumes "\<forall>key \<in> set ACCOUNT_ID_KEYS. dict_get acc key = JNull"
  shows "pick_account_id strf acc = None \<and>
         main_loop urljoin room strf srv headers (JObj acc # accounts) all_rows w fuel =
           main_loop urljoin room strf srv headers accounts all_rows w fuel \<and>
         main_loop urljoin room strf srv headers (before @ JObj acc # accounts) all_rows w fuel =
           main_loop urljoin room strf srv headers (before @ accounts) all_rows w fuel"
proof -
  have n: "pick_account_id strf acc = None"
    unfolding pick_account_id_def by (rule pick_first_id_none[OF assms])
  from n main_loop_skip[OF n, of urljoin room srv headers "[]"] main_loop_skip[OF n, of urljoin room srv headers before]
  show ?thesis by simp
qed

theorem skip_account_without_id_witness:
  "main_loop plain_urljoin 1000 opaque_text pointer_server []
     [JObj [(''name'', JStr ''Ann''), (''id'', JNull)],
      JObj [(''id'', JStr ''7''), (''name'', JStr ''Bob'')]] []
     \<lparr>srv_state = 0, trace = []\<rparr> 5 =
   (Returned [JObj [(''account_id'', JStr ''7''), (''account_name'', JStr ''Bob''),
                    (''account_linkedin'', JStr ''''), (''campaign'', JObj [])]],
    \<lparr>srv_state = 2,
       trace = [Get \<lparr>req_url = ''https://api.liaufa.com/api/v1/open-api/v2/li_accounts/7/campaign_instances/'',
                     req_headers = [], req_params = Some [(''page'', 1), (''limit'', 100)]\<rparr>,
                Get \<lparr>req_url = ''https://api.liaufa.com/p2'',
                     req_headers = [], req_params = Some [(''page'', 2), (''limit'', 100)]\<rparr>,
                Sleep 200]\<rparr>,
    3)"
proof -
  have h: "\<forall>key \<in> set ACCOUNT_ID_KEYS. dict_get [(''name'', JStr ''Ann''), (''id'', JNull)] key = JNull"
    by (simp add: ACCOUNT_ID_KEYS_def dict_get_def)
  have r: "main_loop plain_urljoin 1000 opaque_text pointer_server []
     [JObj [(''id'', JStr ''7''), (''name'', JStr ''Bob'')]] []
     \<lparr>srv_state = 0, trace = []\<rparr> 5 =
   (Returned [JObj [(''account_id'', JStr ''7''), (''account_name'', JStr ''Bob''),
                    (''account_linkedin'', JStr ''''), (''campaign'', JObj [])]],
    \<lparr>srv_state = 2,
       trace = [Get \<lparr>req_url = ''https://api.liaufa.com/api/v1/open-api/v2/li_accounts/7/campaign_instances/'',
                     req_headers = [], req_params = Some [(''page'', 1), (''limit'', 100)]\<rparr>,
                Get \<lparr>req_url = ''https://api.liaufa.com/p2'',
                     req_headers = [], req_params = Some [(''page'', 2), (''limit'', 100)]\<rparr>,
                Sleep 200]\<rparr>,
    3)"
    by code_simp
  from skip_account_without_id[OF h, of opaque_text plain_urljoin 1000 pointer_server "[]"
         "[JObj [(''id'', JStr ''7''), (''name'', JStr ''Bob'')]]" "[]"
         "\<lparr>srv_state = 0, trace = []\<rparr>" 5 "[]"] r
  show ?thesis by simp
qed

subsection \<open>The row filter\<close>

lemma flatten_all_objects:
  "flatten_all strf dumps (map JObj rows) = Inr (map (flatten_row strf dumps) rows)"
  by (induction rows) simp_all

lemma name_column_as_str:
  "dict_get (campaign_name_as_str strf (flatten_row strf dumps row)) ''campaign_name'' =
   JStr (fillna_astype_str strf (dict_get (flatten_row strf dumps row) ''campaign_name''))"
  by (simp add: campaign_name_as_str_def flatten_row_def Let_def dict_get_def)

text \<open>
  C6. For a non-empty input of records, the table holds, in input order, the flattened
  rows of exactly those records whose resolved campaign name, as a string, is not empty
  after trimming whitespace: a row is excluded if and only if its name is blank. A
  record whose campaign name is three spaces has a blank name.
\<close>

theorem blank_name_filter:
  assumes "records \<noteq> []"
  shows "campaign_stats_table strf dumps (JList (map JObj records)) =
           Inr (map (\<lambda>r. campaign_name_as_str strf (flatten_row strf dumps r))
                  (filter (\<lambda>r. strip (fillna_astype_str strf
                                          (dict_get (flatten_row strf dumps r) ''campaign_name'')) \<noteq> [])
                     records))
       \<and> strip (fillna_astype_str strf
                  (dict_get (flatten_row strf dumps
                               [(''campaign'', JObj [(''name'', JStr ''   '')])]) ''campaign_name'')) = []"
proof -
  have a: "campaign_stats_table strf dumps (JList (map JObj records)) =
           Inr (map (\<lambda>r. campaign_name_as_str strf (flatten_row strf dumps r))
                  (filter (\<lambda>r. strip (fillna_astype_str strf
                                          (dict_get (flatten_row strf dumps r) ''campaign_name'')) \<noteq> [])
                     records))"
    using assms
    by (simp add: campaign_stats_table_def flatten_all_objects filter_map comp_def
          name_column_as_str py_str_def)
  have b: "strip (fillna_astype_str strf
                  (dict_get (flatten_row strf dumps
                               [(''campaign'', JObj [(''name'', JStr ''   '')])]) ''campaign_name'')) = []"
    by (simp add: flatten_row_def Let_def dict_get_def py_or_def normalize_campaign_name_def
          fillna_astype_str_def py_str_def strip_def is_space_def)
  from a b show ?thesis by (rule conjI)
qed

theorem blank_name_filter_witness:
  "campaign_stats_table opaque_text opaque_text
     (JList [JObj [(''account_name'', JStr ''A''), (''campaign'', JObj [(''name'', JStr ''   '')])],
             JObj [(''account_name'', JStr ''A''), (''campaign'', JObj [(''title'', JStr '' Foo'')])],
             JObj [(''account_name'', JStr ''A'')]])
   = Inr [campaign_name_as_str opaque_text
            (flatten_row opaque_text opaque_text
               [(''account_name'', JStr ''A''), (''campaign'', JObj [(''title'', JStr '' Foo'')])])]"
proof -
  have ne: "[[(''account_name'', JStr ''A''), (''campaign'', JObj [(''name'', JStr ''   '')])],
             [(''account_name'', JStr ''A''), (''campaign'', JObj [(''title'', JStr '' Foo'')])],
             [(''account_name'', JStr ''A'')]] \<noteq> ([] :: jdict list)"
    by simp
  from blank_name_filter[OF ne, of opaque_text opaque_text]
  show ?thesis
    by (simp add: flatten_row_def Let_def dict_get_def py_or_def normalize_campaign_name_def
          fillna_astype_str_def py_str_def strip_def is_space_def)
qed

end
